theory Spec2Isabelle
  imports Complex_Main "HOL-Library.Word"
begin

section \<open>JavaScript values\<close>

text \<open>
  A JavaScript string is a sequence of UTF-16 code units. A literal of the source is
  written \<open>str ''...''\<close>.
\<close>

type_synonym jsstring = "16 word list"

definition str :: "string \<Rightarrow> jsstring" where
  "str s = map of_char s"

text \<open>
  The values that \<^verbatim>\<open>JSON.parse\<close> yields, and \<^verbatim>\<open>undefined\<close>, which a property read
  yields for a missing property. A number is the value of a double; \<^verbatim>\<open>JSON.parse\<close>
  never yields NaN.
\<close>

datatype number = Finite rat | PlusInfinity | MinusInfinity

datatype jsval =
    Undefined
  | Null
  | Bool bool
  | Num number
  | Str jsstring
  | Arr "jsval list"
  | Obj "(jsstring \<times> jsval) list"

datatype exn = TypeError | Rejected

text \<open>Truthiness (\<^verbatim>\<open>ToBoolean\<close>): what \<^verbatim>\<open>!v\<close>, \<^verbatim>\<open>v || w\<close> and \<^verbatim>\<open>if (v)\<close> test.\<close>

fun truthy :: "jsval \<Rightarrow> bool" where
  "truthy Undefined = False"
| "truthy Null = False"
| "truthy (Bool b) = b"
| "truthy (Num n) = (n \<noteq> Finite 0)"
| "truthy (Str s) = (s \<noteq> [])"
| "truthy (Arr xs) = True"
| "truthy (Obj kvs) = True"

fun typeof :: "jsval \<Rightarrow> jsstring" where
  "typeof Undefined = str ''undefined''"
| "typeof Null = str ''object''"
| "typeof (Bool b) = str ''boolean''"
| "typeof (Num n) = str ''number''"
| "typeof (Str s) = str ''string''"
| "typeof (Arr xs) = str ''object''"
| "typeof (Obj kvs) = str ''object''"

text \<open>
  The property read \<^verbatim>\<open>v.name\<close>, for the names the handlers read from a request body
  (\<^verbatim>\<open>query\<close>, \<^verbatim>\<open>prompt\<close>, \<^verbatim>\<open>context\<close>), which no built-in prototype defines: a
  TypeError on \<^verbatim>\<open>null\<close> and \<^verbatim>\<open>undefined\<close>, the own property of an object, and
  \<^verbatim>\<open>undefined\<close> on every other value.
\<close>

fun get_field :: "jsval \<Rightarrow> jsstring \<Rightarrow> exn + jsval" where
  "get_field Undefined k = Inl TypeError"
| "get_field Null k = Inl TypeError"
| "get_field (Obj kvs) k = Inr (case map_of kvs k of None \<Rightarrow> Undefined | Some v \<Rightarrow> v)"
| "get_field v k = Inr Undefined"

text \<open>
  A value that is a string, \<^verbatim>\<open>null\<close> or \<^verbatim>\<open>undefined\<close> (a header, an environment
  variable, the request body) is a \<open>jsstring option\<close>; \<open>falsy\<close> is \<^verbatim>\<open>!x\<close> on it
  and \<open>js_or\<close> is \<^verbatim>\<open>x || y\<close>.
\<close>

definition falsy :: "jsstring option \<Rightarrow> bool" where
  "falsy x = (case x of None \<Rightarrow> True | Some s \<Rightarrow> s = [])"

definition js_or :: "jsstring option \<Rightarrow> jsstring option \<Rightarrow> jsstring option" where
  "js_or x y = (if falsy x then y else x)"

text \<open>\<^verbatim>\<open>x || ''\<close> for an optional string of the upstream payload.\<close>

definition or_empty :: "jsstring option \<Rightarrow> jsstring" where
  "or_empty x = (case x of None \<Rightarrow> [] | Some s \<Rightarrow> s)"

subsection \<open>String.prototype.split and String.prototype.trim\<close>

text \<open>
  \<^verbatim>\<open>s.split(sep)\<close> for a separator of one code unit: the pieces between the
  separators, so one piece more than there are separators (\<^verbatim>\<open>''.split(',')\<close> is
  \<^verbatim>\<open>['']\<close>).
\<close>

fun split_on :: "'a \<Rightarrow> 'a list \<Rightarrow> 'a list list" where
  "split_on sep [] = [[]]"
| "split_on sep (c # cs) =
     (if c = sep then [] # split_on sep cs
      else (case split_on sep cs of
              [] \<Rightarrow> [[c]]
            | p # ps \<Rightarrow> (c # p) # ps))"

text \<open>
  The code units that \<^verbatim>\<open>trim\<close> strips: ECMAScript's WhiteSpace (TAB, VT, FF, SP,
  NBSP, ZWNBSP and the other space separators) and LineTerminator (LF, CR, LS, PS).
\<close>

definition is_space :: "16 word \<Rightarrow> bool" where
  "is_space c \<longleftrightarrow>
     c \<in> {0x0009, 0x000A, 0x000B, 0x000C, 0x000D, 0x0020, 0x00A0, 0x1680,
          0x2000, 0x2001, 0x2002, 0x2003, 0x2004, 0x2005, 0x2006, 0x2007,
          0x2008, 0x2009, 0x200A, 0x2028, 0x2029, 0x202F, 0x205F, 0x3000, 0xFEFF}"

definition trim :: "jsstring \<Rightarrow> jsstring" where
  "trim s = rev (dropWhile is_space (rev (dropWhile is_space s)))"

section \<open>The process environment and the platform\<close>

text \<open>\<^verbatim>\<open>process.env\<close>: each variable is a string or \<^verbatim>\<open>undefined\<close>.\<close>

record env =
  LICENSE_TOKENS :: "jsstring option"
  NODE_ENV :: "jsstring option"
  GEMINI_API_KEY :: "jsstring option"
  YOUTUBE_API_KEY :: "jsstring option"

text \<open>
  The upstream payload, as \<^verbatim>\<open>interface YouTubeApiResponse\<close> declares it
  (\<^verbatim>\<open>response.json()\<close> is cast to it): every field is optional.
\<close>

record thumbnail =
  thumb_url :: "jsstring option"

record snippet_thumbnails =
  default_thumb :: "thumbnail option"
  medium_thumb :: "thumbnail option"
  high_thumb :: "thumbnail option"

record snippet =
  snippet_title :: "jsstring option"
  channelTitle :: "jsstring option"
  snippet_thumbs :: "snippet_thumbnails option"

record item_id =
  videoId :: "jsstring option"

record item =
  item_id :: "item_id option"
  item_snippet :: "snippet option"

record YouTubeApiResponse =
  items :: "item list option"

text \<open>
  The response of \<^verbatim>\<open>fetch\<close>: \<open>ok\<close>, and the two body readers, each of which may
  reject (\<open>None\<close>).
\<close>

record fetch_response =
  ok :: bool
  text_of :: "jsstring option"
  json_of :: "YouTubeApiResponse option"

text \<open>A URL: the base and the search parameters set on it, in order.\<close>

type_synonym url = "jsstring \<times> (jsstring \<times> jsstring) list"

text \<open>
  What the handlers call and do not define: \<^verbatim>\<open>JSON.parse\<close> (\<open>None\<close> when it
  throws), \<^verbatim>\<open>JSON.stringify\<close>, the generative-text client (for an API key, a model name
  and a prompt, the text that \<^verbatim>\<open>model.generateContent(fullPrompt)\<close> and \<^verbatim>\<open>response.text()\<close>
  give; \<open>None\<close> when the call throws or rejects) and \<^verbatim>\<open>fetch\<close> (\<open>None\<close> when it
  rejects).
\<close>

record platform =
  JSON_parse :: "jsstring \<Rightarrow> jsval option"
  JSON_stringify :: "jsval \<Rightarrow> jsstring"
  generateContent :: "jsstring \<Rightarrow> jsstring \<Rightarrow> jsstring \<Rightarrow> jsstring option"
  fetch :: "url \<Rightarrow> fetch_response option"

text \<open>The upstream requests a handler made, in order.\<close>

datatype call =
    GenerateContent jsstring jsstring jsstring
  | Fetch url

section \<open>utils/license\<close>

record LicenseCheckResult =
  valid :: bool
  reason :: "jsstring option"

text \<open>
  Line 22: \<^verbatim>\<open>process.env.LICENSE_TOKENS?.split(',').map(t => t.trim()) || []\<close>. An array
  is truthy, so \<^verbatim>\<open>[]\<close> is taken only when the variable is unset.
\<close>

definition whitelist :: "env \<Rightarrow> jsstring list" where
  "whitelist e =
     (case LICENSE_TOKENS e of
        None \<Rightarrow> []
      | Some v \<Rightarrow> map trim (split_on 0x002C v))"

definition validateLicense :: "env \<Rightarrow> jsstring option \<Rightarrow> LicenseCheckResult" where
  "validateLicense e token =
     (case token of
        None \<Rightarrow> \<lparr>valid = False, reason = Some (str ''Missing authorization token'')\<rparr>
      | Some t \<Rightarrow>
          if t = [] then \<lparr>valid = False, reason = Some (str ''Missing authorization token'')\<rparr>
          else if length (whitelist e) = 0 \<and> NODE_ENV e = Some (str ''development'')
            then \<lparr>valid = True, reason = None\<rparr>
          else if t \<in> set (whitelist e) then \<lparr>valid = True, reason = None\<rparr>
          else \<lparr>valid = False, reason = Some (str ''Invalid license token'')\<rparr>)"

definition extractToken :: "jsstring option \<Rightarrow> jsstring option" where
  "extractToken authHeader =
     (case authHeader of
        None \<Rightarrow> None
      | Some h \<Rightarrow>
          if h = [] then None
          else (let parts = split_on 0x0020 h
                in if length parts \<noteq> 2 \<or> parts ! 0 \<noteq> str ''Bearer'' then None
                   else Some (parts ! 1)))"

section \<open>The handlers\<close>

record event =
  httpMethod :: jsstring
  headers :: "jsstring \<rightharpoonup> jsstring"
  body :: "jsstring option"

record response =
  statusCode :: nat
  res_headers :: "(jsstring \<times> jsstring) list"
  res_body :: jsstring

definition corsHeaders :: "(jsstring \<times> jsstring) list" where
  "corsHeaders =
     [(str ''Access-Control-Allow-Origin'', str ''*''),
      (str ''Access-Control-Allow-Headers'', str ''Content-Type, Authorization''),
      (str ''Access-Control-Allow-Methods'', str ''POST, OPTIONS'')]"

text \<open>\<^verbatim>\<open>JSON.stringify({ error, message })\<close> under the CORS headers.\<close>

definition error_response :: "platform \<Rightarrow> nat \<Rightarrow> jsstring \<Rightarrow> jsstring \<Rightarrow> response" where
  "error_response p code err msg =
     \<lparr>statusCode = code, res_headers = corsHeaders,
      res_body = JSON_stringify p (Obj [(str ''error'', Str err), (str ''message'', Str msg)])\<rparr>"

text \<open>The \<^verbatim>\<open>catch\<close> block at the handler boundary.\<close>

definition catch_response :: "platform \<Rightarrow> response" where
  "catch_response p =
     error_response p 500 (str ''Internal Server Error'')
       (str ''An error occurred processing your request'')"

text \<open>\<^verbatim>\<open>licenseCheck.reason || 'Invalid license'\<close>.\<close>

definition license_message :: "LicenseCheckResult \<Rightarrow> jsstring" where
  "license_message c = (if falsy (reason c) then str ''Invalid license'' else or_empty (reason c))"

text \<open>
  The license guard of both handlers: the token of the request and its check.
\<close>

definition request_token :: "event \<Rightarrow> jsstring option" where
  "request_token ev =
     extractToken (js_or (headers ev (str ''authorization'')) (headers ev (str ''Authorization'')))"

text \<open>\<^verbatim>\<open>JSON.parse(event.body || '{}')\<close>.\<close>

definition parse_body :: "platform \<Rightarrow> event \<Rightarrow> jsval option" where
  "parse_body p ev = JSON_parse p (or_empty (js_or (body ev) (Some (str ''{}''))))"

subsection \<open>aiCommand\<close>

text \<open>Lines 592 to 596: the prompt sent upstream.\<close>

definition fullPrompt :: "platform \<Rightarrow> jsval \<Rightarrow> jsstring \<Rightarrow> jsstring" where
  "fullPrompt p ctx prompt =
     (if truthy ctx
      then str ''Context: '' @ JSON_stringify p ctx @ [0x000A, 0x000A] @ str ''User Request: '' @ prompt
      else prompt)"

text \<open>
  The \<^verbatim>\<open>try\<close> block: the response it returns, or the exception it throws, with the
  upstream requests made. In
  \<^verbatim>\<open>!body.prompt || typeof body.prompt !== 'string' || body.prompt.trim().length === 0\<close>
  every value that is not a string fails one of the first two tests.
\<close>

definition aiCommand_try :: "platform \<Rightarrow> env \<Rightarrow> event \<Rightarrow> (exn + response) \<times> call list" where
  "aiCommand_try p e ev =
     (let licenseCheck = validateLicense e (request_token ev)
      in if \<not> valid licenseCheck
         then (Inr (error_response p 401 (str ''Unauthorized'') (license_message licenseCheck)), [])
         else
           (case parse_body p ev of
              None \<Rightarrow>
                (Inr (error_response p 400 (str ''Bad Request'') (str ''Invalid JSON in request body'')), [])
            | Some b \<Rightarrow>
                (case get_field b (str ''prompt'') of
                   Inl x \<Rightarrow> (Inl x, [])
                 | Inr (Str prompt) \<Rightarrow>
                     if \<not> truthy (Str prompt) \<or> length (trim prompt) = 0
                     then (Inr (error_response p 400 (str ''Bad Request'')
                                 (str ''Missing or invalid \"prompt\" field'')), [])
                     else if falsy (GEMINI_API_KEY e)
                     then (Inr (error_response p 500 (str ''Internal Server Error'')
                                 (str ''Server configuration error'')), [])
                     else
                       (case get_field b (str ''context'') of
                          Inl x \<Rightarrow> (Inl x, [])
                        | Inr ctx \<Rightarrow>
                            (let apiKey = or_empty (GEMINI_API_KEY e);
                                 full = fullPrompt p ctx prompt;
                                 calls = [GenerateContent apiKey (str ''gemini-pro'') full]
                             in case generateContent p apiKey (str ''gemini-pro'') full of
                                  None \<Rightarrow> (Inl Rejected, calls)
                                | Some txt \<Rightarrow>
                                    (Inr \<lparr>statusCode = 200,
                                          res_headers = corsHeaders @
                                            [(str ''Content-Type'', str ''application/json'')],
                                          res_body = JSON_stringify p (Obj [(str ''result'', Str txt)])\<rparr>,
                                     calls)))
                 | Inr v \<Rightarrow>
                     (Inr (error_response p 400 (str ''Bad Request'')
                            (str ''Missing or invalid \"prompt\" field'')), []))))"

definition aiCommand_handler :: "platform \<Rightarrow> env \<Rightarrow> event \<Rightarrow> response \<times> call list" where
  "aiCommand_handler p e ev =
     (if httpMethod ev = str ''OPTIONS''
      then (\<lparr>statusCode = 200, res_headers = corsHeaders, res_body = []\<rparr>, [])
      else if httpMethod ev \<noteq> str ''POST''
      then (error_response p 405 (str ''Method Not Allowed'') (str ''Only POST requests are allowed''), [])
      else (case aiCommand_try p e ev of
              (Inl x, calls) \<Rightarrow> (catch_response p, calls)
            | (Inr r, calls) \<Rightarrow> (r, calls)))"

subsection \<open>youtubeSearch\<close>

text \<open>Lines 130 to 135: the search URL.\<close>

definition searchUrl :: "jsstring \<Rightarrow> jsstring \<Rightarrow> url" where
  "searchUrl query apiKey =
     (str ''https://www.googleapis.com/youtube/v3/search'',
      [(str ''part'', str ''snippet''),
       (str ''q'', query),
       (str ''type'', str ''video''),
       (str ''maxResults'', str ''10''),
       (str ''key'', apiKey)])"

text \<open>A thumbnail URL, \<^verbatim>\<open>item.snippet?.thumbnails?.default?.url\<close>: \<^verbatim>\<open>undefined\<close> when
  any link of the chain is absent.\<close>

definition thumb_value :: "item \<Rightarrow> (snippet_thumbnails \<Rightarrow> thumbnail option) \<Rightarrow> jsval" where
  "thumb_value it sel =
     (case Option.bind (Option.bind (Option.bind (item_snippet it) snippet_thumbs) sel) thumb_url of
        None \<Rightarrow> Undefined
      | Some u \<Rightarrow> Str u)"

text \<open>Lines 155 to 164: the object built for one item.\<close>

definition result_of :: "item \<Rightarrow> jsval" where
  "result_of it =
     Obj [(str ''title'', Str (or_empty (Option.bind (item_snippet it) snippet_title))),
          (str ''url'', Str (str ''https://www.youtube.com/watch?v='' @
                             or_empty (Option.bind (item_id it) videoId))),
          (str ''channel'', Str (or_empty (Option.bind (item_snippet it) channelTitle))),
          (str ''thumbnails'',
             Obj [(str ''default'', thumb_value it default_thumb),
                  (str ''medium'', thumb_value it medium_thumb),
                  (str ''high'', thumb_value it high_thumb)])]"

definition results_of :: "YouTubeApiResponse \<Rightarrow> jsval list" where
  "results_of data = map result_of (case items data of None \<Rightarrow> [] | Some xs \<Rightarrow> xs)"

definition youtubeSearch_try :: "platform \<Rightarrow> env \<Rightarrow> event \<Rightarrow> (exn + response) \<times> call list" where
  "youtubeSearch_try p e ev =
     (let licenseCheck = validateLicense e (request_token ev)
      in if \<not> valid licenseCheck
         then (Inr (error_response p 401 (str ''Unauthorized'') (license_message licenseCheck)), [])
         else
           (case parse_body p ev of
              None \<Rightarrow>
                (Inr (error_response p 400 (str ''Bad Request'') (str ''Invalid JSON in request body'')), [])
            | Some b \<Rightarrow>
                (case get_field b (str ''query'') of
                   Inl x \<Rightarrow> (Inl x, [])
                 | Inr (Str query) \<Rightarrow>
                     if \<not> truthy (Str query) \<or> length (trim query) = 0
                     then (Inr (error_response p 400 (str ''Bad Request'')
                                 (str ''Missing or invalid \"query\" field'')), [])
                     else if falsy (YOUTUBE_API_KEY e)
                     then (Inr (error_response p 500 (str ''Internal Server Error'')
                                 (str ''Server configuration error'')), [])
                     else
                       (let u = searchUrl query (or_empty (YOUTUBE_API_KEY e));
                            calls = [Fetch u]
                        in case fetch p u of
                             None \<Rightarrow> (Inl Rejected, calls)
                           | Some resp \<Rightarrow>
                               if \<not> ok resp
                               then (case text_of resp of
                                       None \<Rightarrow> (Inl Rejected, calls)
                                     | Some errorText \<Rightarrow>
                                         (Inr (error_response p 500 (str ''Internal Server Error'')
                                                (str ''Failed to search YouTube'')), calls))
                               else (case json_of resp of
                                       None \<Rightarrow> (Inl Rejected, calls)
                                     | Some data \<Rightarrow>
                                         (Inr \<lparr>statusCode = 200,
                                               res_headers = corsHeaders @
                                                 [(str ''Content-Type'', str ''application/json'')],
                                               res_body = JSON_stringify p
                                                 (Obj [(str ''results'', Arr (results_of data))])\<rparr>,
                                          calls)))
                 | Inr v \<Rightarrow>
                     (Inr (error_response p 400 (str ''Bad Request'')
                            (str ''Missing or invalid \"query\" field'')), []))))"

definition youtubeSearch_handler :: "platform \<Rightarrow> env \<Rightarrow> event \<Rightarrow> response \<times> call list" where
  "youtubeSearch_handler p e ev =
     (if httpMethod ev = str ''OPTIONS''
      then (\<lparr>statusCode = 200, res_headers = corsHeaders, res_body = []\<rparr>, [])
      else if httpMethod ev \<noteq> str ''POST''
      then (error_response p 405 (str ''Method Not Allowed'') (str ''Only POST requests are allowed''), [])
      else (case youtubeSearch_try p e ev of
              (Inl x, calls) \<Rightarrow> (catch_response p, calls)
            | (Inr r, calls) \<Rightarrow> (r, calls)))"

section \<open>A mocked platform\<close>

text \<open>
  Concrete requests, an environment and a mocked platform, on which the theorems below
  are instantiated: the mocked \<^verbatim>\<open>JSON.parse\<close> knows the request bodies used here, the
  mocked \<^verbatim>\<open>JSON.stringify\<close> serialises strings, objects, arrays, booleans and
  \<^verbatim>\<open>null\<close> (and prints every number as \<^verbatim>\<open>0\<close>), the mocked generative-text client
  always answers, and the mocked \<^verbatim>\<open>fetch\<close> returns a payload of two items, the second of
  which has no id and only one thumbnail.
\<close>

definition mock_parse :: "jsstring \<Rightarrow> jsval option" where
  "mock_parse s =
     (if s = str ''null'' then Some Null
      else if s = str ''{}'' then Some (Obj [])
      else if s = str ''{\"query\":\"cats\"}'' then Some (Obj [(str ''query'', Str (str ''cats''))])
      else if s = str ''{\"query\":\"   \"}'' then Some (Obj [(str ''query'', Str (str ''   ''))])
      else if s = str ''{\"prompt\":\"cut\"}'' then Some (Obj [(str ''prompt'', Str (str ''cut''))])
      else if s = str ''{\"prompt\":\"cut\",\"context\":{}}''
        then Some (Obj [(str ''prompt'', Str (str ''cut'')), (str ''context'', Obj [])])
      else if s = str ''{\"prompt\":\"cut\",\"context\":null}''
        then Some (Obj [(str ''prompt'', Str (str ''cut'')), (str ''context'', Null)])
      else None)"

definition mock_quote :: "jsstring \<Rightarrow> jsstring" where
  "mock_quote s =
     [0x0022] @
     concat (map (\<lambda>c. if c = 0x0022 \<or> c = 0x005C then [0x005C, c] else [c]) s) @
     [0x0022]"

fun mock_join :: "jsstring list \<Rightarrow> jsstring" where
  "mock_join [] = []"
| "mock_join [x] = x"
| "mock_join (x # xs) = x @ [0x002C] @ mock_join xs"

fun mock_stringify :: "jsval \<Rightarrow> jsstring" where
  "mock_stringify (Str s) = mock_quote s"
| "mock_stringify (Obj kvs) =
     [0x007B] @
     mock_join (map (\<lambda>kv. mock_quote (fst kv) @ [0x003A] @ mock_stringify (snd kv))
                  (filter (\<lambda>kv. snd kv \<noteq> Undefined) kvs)) @
     [0x007D]"
| "mock_stringify (Arr xs) = [0x005B] @ mock_join (map mock_stringify xs) @ [0x005D]"
| "mock_stringify (Bool b) = (if b then str ''true'' else str ''false'')"
| "mock_stringify (Num n) = str ''0''"
| "mock_stringify Null = str ''null''"
| "mock_stringify Undefined = str ''null''"

definition mock_items :: "item list" where
  "mock_items =
     [\<lparr>item_id = Some \<lparr>videoId = Some (str ''abc'')\<rparr>,
       item_snippet = Some
         \<lparr>snippet_title = Some (str ''Cats''),
          channelTitle = Some (str ''Felines''),
          snippet_thumbs = Some
            \<lparr>default_thumb = Some \<lparr>thumb_url = Some (str ''d.jpg'')\<rparr>,
             medium_thumb = Some \<lparr>thumb_url = Some (str ''m.jpg'')\<rparr>,
             high_thumb = Some \<lparr>thumb_url = Some (str ''h.jpg'')\<rparr>\<rparr>\<rparr>\<rparr>,
      \<lparr>item_id = None,
       item_snippet = Some
         \<lparr>snippet_title = None,
          channelTitle = Some (str ''Dogs''),
          snippet_thumbs = Some
            \<lparr>default_thumb = None,
             medium_thumb = Some \<lparr>thumb_url = Some (str ''m2.jpg'')\<rparr>,
             high_thumb = Some \<lparr>thumb_url = None\<rparr>\<rparr>\<rparr>\<rparr>]"

definition mock_platform :: platform where
  "mock_platform =
     \<lparr>JSON_parse = mock_parse,
      JSON_stringify = mock_stringify,
      generateContent = (\<lambda>apiKey model prompt. Some (str ''done'')),
      fetch = (\<lambda>u. Some \<lparr>ok = True, text_of = Some [],
                           json_of = Some \<lparr>items = Some mock_items\<rparr>\<rparr>)\<rparr>"

definition mock_env :: "jsstring option \<Rightarrow> jsstring option \<Rightarrow> env" where
  "mock_env tokens mode =
     \<lparr>LICENSE_TOKENS = tokens, NODE_ENV = mode,
      GEMINI_API_KEY = Some (str ''g-key''), YOUTUBE_API_KEY = Some (str ''y-key'')\<rparr>"

definition mock_event :: "jsstring \<Rightarrow> jsstring option \<Rightarrow> jsstring option \<Rightarrow> event" where
  "mock_event method auth b =
     \<lparr>httpMethod = method,
      headers = (\<lambda>k. if k = str ''authorization'' then auth else None),
      body = b\<rparr>"

section \<open>Strings: split and trim\<close>

lemma split_on_not_Nil: "split_on sep s \<noteq> []"
  by (induction s) (auto split: list.splits)

lemma split_on_no_sep: "sep \<notin> set s \<Longrightarrow> split_on sep s = [s]"
  by (induction s) auto

lemma split_on_append: "sep \<notin> set a \<Longrightarrow> split_on sep (a @ sep # b) = a # split_on sep b"
  by (induction a) auto

lemma split_on_single: "split_on sep s = [a] \<Longrightarrow> s = a \<and> sep \<notin> set a"
  by (induction s arbitrary: a) (auto split: if_splits list.splits simp: split_on_not_Nil)

lemma split_on_pair:
  "split_on sep s = [a, b] \<Longrightarrow> s = a @ sep # b \<and> sep \<notin> set a \<and> sep \<notin> set b"
proof (induction s arbitrary: a)
  case Nil
  then show ?case by simp
next
  case (Cons c cs)
  show ?case
  proof (cases "c = sep")
    case True
    with Cons.prems have "a = []" and "split_on sep cs = [b]" by auto
    with True split_on_single [of sep cs b] show ?thesis by simp
  next
    case False
    with Cons.prems obtain p where "split_on sep cs = [p, b]" and "a = c # p"
      by (auto split: list.splits)
    with False Cons.IH [of p] show ?thesis by simp
  qed
qed

lemma split_on_pair_iff:
  "split_on sep s = [a, b] \<longleftrightarrow> s = a @ sep # b \<and> sep \<notin> set a \<and> sep \<notin> set b"
  using split_on_pair [of sep s a b] split_on_append [of sep a b] split_on_no_sep [of sep b]
  by auto

lemma dropWhile_all_iff: "(\<forall>c \<in> set (dropWhile P s). P c) \<longleftrightarrow> dropWhile P s = []"
proof
  assume all: "\<forall>c \<in> set (dropWhile P s). P c"
  show "dropWhile P s = []"
  proof (rule ccontr)
    assume ne: "dropWhile P s \<noteq> []"
    then have "hd (dropWhile P s) \<in> set (dropWhile P s)" by simp
    with all have "P (hd (dropWhile P s))" by blast
    with ne hd_dropWhile [of P s] show False by blast
  qed
next
  assume e: "dropWhile P s = []"
  show "\<forall>c \<in> set (dropWhile P s). P c" unfolding e by simp
qed

lemma trim_empty_iff: "length (trim s) = 0 \<longleftrightarrow> (\<forall>c \<in> set s. is_space c)"
proof -
  have "length (trim s) = 0 \<longleftrightarrow> (\<forall>c \<in> set (dropWhile is_space s). is_space c)"
    by (simp add: trim_def dropWhile_eq_Nil_conv)
  also have "\<dots> \<longleftrightarrow> dropWhile is_space s = []"
    by (rule dropWhile_all_iff)
  also have "\<dots> \<longleftrightarrow> (\<forall>c \<in> set s. is_space c)"
    by (simp add: dropWhile_eq_Nil_conv)
  finally show ?thesis .
qed

lemma str_Bearer_no_space: "0x0020 \<notin> set (str ''Bearer'')"
  by (simp add: str_def)

section \<open>The license guard\<close>

text \<open>
  C3. \<open>extractToken\<close> returns a token exactly when splitting the header at single spaces
  gives exactly two parts of which the first is \<^verbatim>\<open>Bearer\<close>, and then it returns the second
  part; an absent header and every other shape give \<^verbatim>\<open>null\<close>. Put differently, the token
  \<open>t\<close> is returned exactly for the header \<^verbatim>\<open>Bearer\<close>, one space, \<open>t\<close>, where \<open>t\<close> has no
  space.
\<close>

theorem extractToken_bearer_only:
  "extractToken h =
     (case h of
        None \<Rightarrow> None
      | Some s \<Rightarrow>
          (case split_on 0x0020 s of
             [a, b] \<Rightarrow> if a = str ''Bearer'' then Some b else None
           | _ \<Rightarrow> None))
   \<and> (extractToken h = Some t \<longleftrightarrow> h = Some (str ''Bearer'' @ 0x0020 # t) \<and> 0x0020 \<notin> set t)"
proof -
  have shape: "extractToken h =
     (case h of
        None \<Rightarrow> None
      | Some s \<Rightarrow>
          (case split_on 0x0020 s of
             [a, b] \<Rightarrow> if a = str ''Bearer'' then Some b else None
           | _ \<Rightarrow> None))"
    by (auto simp: extractToken_def Let_def split: option.splits list.splits)
  have "extractToken h = Some t \<longleftrightarrow> (\<exists>s. h = Some s \<and> split_on 0x0020 s = [str ''Bearer'', t])"
    unfolding shape by (auto split: option.splits list.splits if_splits)
  also have "\<dots> \<longleftrightarrow> h = Some (str ''Bearer'' @ 0x0020 # t) \<and> 0x0020 \<notin> set t"
    using str_Bearer_no_space by (auto simp: split_on_pair_iff)
  finally show ?thesis using shape by blast
qed

theorem extractToken_bearer_only_witness:
  "extractToken (Some (str ''Bearer abc'')) = Some (str ''abc'')
   \<and> extractToken (Some (str ''Bearer a b'')) = None
   \<and> extractToken (Some (str ''Basic abc'')) = None
   \<and> extractToken (Some (str ''Bearer'')) = None"
  using extractToken_bearer_only [of "Some (str ''Bearer abc'')" "str ''abc''"]
    extractToken_bearer_only [of "Some (str ''Bearer a b'')" "[]"]
    extractToken_bearer_only [of "Some (str ''Basic abc'')" "[]"]
    extractToken_bearer_only [of "Some (str ''Bearer'')" "[]"]
  by (simp_all add: str_def)

lemma whitelist_empty_iff: "whitelist e = [] \<longleftrightarrow> LICENSE_TOKENS e = None"
  by (simp add: whitelist_def split_on_not_Nil split: option.splits)

lemma POST_not_OPTIONS: "str ''POST'' \<noteq> str ''OPTIONS''"
  by (simp add: str_def)

lemma aiCommand_unlicensed:
  assumes "httpMethod ev = str ''POST''" and "\<not> valid (validateLicense e (request_token ev))"
  shows "aiCommand_handler p e ev =
           (error_response p 401 (str ''Unauthorized'')
              (license_message (validateLicense e (request_token ev))), [])"
  using assms by (simp add: aiCommand_handler_def aiCommand_try_def POST_not_OPTIONS)

lemma youtubeSearch_unlicensed:
  assumes "httpMethod ev = str ''POST''" and "\<not> valid (validateLicense e (request_token ev))"
  shows "youtubeSearch_handler p e ev =
           (error_response p 401 (str ''Unauthorized'')
              (license_message (validateLicense e (request_token ev))), [])"
  using assms by (simp add: youtubeSearch_handler_def youtubeSearch_try_def POST_not_OPTIONS)

lemma aiCommand_licensed:
  assumes "httpMethod ev = str ''POST''" and "valid (validateLicense e (request_token ev))"
  shows "statusCode (fst (aiCommand_handler p e ev)) \<in> {200, 400, 500}"
  using assms
  by (simp add: aiCommand_handler_def aiCommand_try_def POST_not_OPTIONS Let_def
      error_response_def catch_response_def
      split: option.splits sum.splits jsval.splits prod.splits)

lemma youtubeSearch_licensed:
  assumes "httpMethod ev = str ''POST''" and "valid (validateLicense e (request_token ev))"
  shows "statusCode (fst (youtubeSearch_handler p e ev)) \<in> {200, 400, 500}"
  using assms
  by (simp add: youtubeSearch_handler_def youtubeSearch_try_def POST_not_OPTIONS Let_def
      error_response_def catch_response_def
      split: option.splits sum.splits jsval.splits prod.splits)

lemma license_message_reason:
  "s \<noteq> [] \<Longrightarrow> license_message \<lparr>valid = False, reason = Some s\<rparr> = s"
  by (simp add: license_message_def falsy_def or_empty_def)

lemma Missing_not_empty: "str ''Missing authorization token'' \<noteq> []"
  by (simp add: str_def)

lemma Invalid_not_empty: "str ''Invalid license token'' \<noteq> []"
  by (simp add: str_def)

text \<open>
  C1, as amended. With an empty whitelist in development mode \<open>validateLicense\<close> accepts
  every token that is present and not empty, and a request that carries one passes the
  license guard of both handlers. The test for a missing token comes first: with no token
  (or an empty one) the result is invalid with reason \<^verbatim>\<open>Missing authorization token\<close>, and
  the request is answered 401 with that message.
\<close>

theorem dev_bypass_needs_token:
  assumes "whitelist e = []" and "NODE_ENV e = Some (str ''development'')"
  shows "validateLicense e token =
           (if falsy token
            then \<lparr>valid = False, reason = Some (str ''Missing authorization token'')\<rparr>
            else \<lparr>valid = True, reason = None\<rparr>)
         \<and> (httpMethod ev = str ''POST'' \<and> \<not> falsy (request_token ev) \<longrightarrow>
              statusCode (fst (aiCommand_handler p e ev)) \<noteq> 401
              \<and> statusCode (fst (youtubeSearch_handler p e ev)) \<noteq> 401)
         \<and> (httpMethod ev = str ''POST'' \<and> falsy (request_token ev) \<longrightarrow>
              aiCommand_handler p e ev =
                (error_response p 401 (str ''Unauthorized'') (str ''Missing authorization token''), [])
              \<and> youtubeSearch_handler p e ev =
                (error_response p 401 (str ''Unauthorized'') (str ''Missing authorization token''), [])
              \<and> statusCode (fst (aiCommand_handler p e ev)) = 401
              \<and> res_body (fst (aiCommand_handler p e ev)) =
                  JSON_stringify p
                    (Obj [(str ''error'', Str (str ''Unauthorized'')),
                          (str ''message'', Str (str ''Missing authorization token''))])
              \<and> statusCode (fst (youtubeSearch_handler p e ev)) = 401
              \<and> res_body (fst (youtubeSearch_handler p e ev)) =
                  JSON_stringify p
                    (Obj [(str ''error'', Str (str ''Unauthorized'')),
                          (str ''message'', Str (str ''Missing authorization token''))]))"
proof -
  have v: "validateLicense e tok =
           (if falsy tok
            then \<lparr>valid = False, reason = Some (str ''Missing authorization token'')\<rparr>
            else \<lparr>valid = True, reason = None\<rparr>)" for tok
    using assms by (simp add: validateLicense_def falsy_def split: option.splits)
  have pass: "statusCode (fst (aiCommand_handler p e ev)) \<noteq> 401
              \<and> statusCode (fst (youtubeSearch_handler p e ev)) \<noteq> 401"
    if "httpMethod ev = str ''POST''" and "\<not> falsy (request_token ev)"
    using that aiCommand_licensed [of ev e p] youtubeSearch_licensed [of ev e p]
    by (auto simp: v)
  have stop: "aiCommand_handler p e ev =
                (error_response p 401 (str ''Unauthorized'') (str ''Missing authorization token''), [])
              \<and> youtubeSearch_handler p e ev =
                (error_response p 401 (str ''Unauthorized'') (str ''Missing authorization token''), [])
              \<and> statusCode (fst (aiCommand_handler p e ev)) = 401
              \<and> res_body (fst (aiCommand_handler p e ev)) =
                  JSON_stringify p
                    (Obj [(str ''error'', Str (str ''Unauthorized'')),
                          (str ''message'', Str (str ''Missing authorization token''))])
              \<and> statusCode (fst (youtubeSearch_handler p e ev)) = 401
              \<and> res_body (fst (youtubeSearch_handler p e ev)) =
                  JSON_stringify p
                    (Obj [(str ''error'', Str (str ''Unauthorized'')),
                          (str ''message'', Str (str ''Missing authorization token''))])"
    if "httpMethod ev = str ''POST''" and "falsy (request_token ev)"
    using that aiCommand_unlicensed [of ev e p] youtubeSearch_unlicensed [of ev e p]
    by (simp add: v license_message_reason Missing_not_empty error_response_def)
  from v pass stop show ?thesis by blast
qed

theorem dev_bypass_needs_token_witness:
  "validateLicense (mock_env None (Some (str ''development''))) (Some (str ''anything'')) =
     \<lparr>valid = True, reason = None\<rparr>
   \<and> statusCode (fst (aiCommand_handler mock_platform (mock_env None (Some (str ''development'')))
        (mock_event (str ''POST'') (Some (str ''Bearer anything'')) None))) \<noteq> 401"
  using dev_bypass_needs_token [of "mock_env None (Some (str ''development''))"
      "Some (str ''anything'')"
      "mock_event (str ''POST'') (Some (str ''Bearer anything'')) None" mock_platform]
  by (simp add: whitelist_def mock_env_def mock_event_def falsy_def request_token_def
      js_or_def extractToken_def str_def)

text \<open>
  The claim as first stated fails when no token was extracted: the whitelist is empty, the
  mode is development, and the request is still rejected.
\<close>

theorem dev_bypass_counterexample:
  "whitelist (mock_env None (Some (str ''development''))) = []
   \<and> NODE_ENV (mock_env None (Some (str ''development''))) = Some (str ''development'')
   \<and> validateLicense (mock_env None (Some (str ''development''))) None =
       \<lparr>valid = False, reason = Some (str ''Missing authorization token'')\<rparr>
   \<and> validateLicense (mock_env None (Some (str ''development''))) (extractToken None) \<noteq>
       \<lparr>valid = True, reason = None\<rparr>
   \<and> statusCode (fst (youtubeSearch_handler mock_platform (mock_env None (Some (str ''development'')))
        (mock_event (str ''POST'') None (Some (str ''{\"query\":\"cats\"}''))))) = 401"
  by (simp add: whitelist_def mock_env_def mock_event_def validateLicense_def extractToken_def
      youtubeSearch_handler_def youtubeSearch_try_def request_token_def js_or_def falsy_def
      error_response_def str_def)

text \<open>
  C2. For a present, non-empty token, a non-empty parsed whitelist and a mode other than
  development, \<open>validateLicense\<close> answers valid exactly when the token equals some entry of
  \<^verbatim>\<open>LICENSE_TOKENS\<close>, split at commas and trimmed. A token that is no member gets the
  reason \<^verbatim>\<open>Invalid license token\<close> and the request is answered 401 with that message;
  a request with a member token is not answered 401 by either handler.
\<close>

theorem whitelist_membership:
  assumes "whitelist e \<noteq> []" and "NODE_ENV e \<noteq> Some (str ''development'')" and "t \<noteq> []"
  shows "(valid (validateLicense e (Some t)) \<longleftrightarrow>
            (\<exists>v x. LICENSE_TOKENS e = Some v \<and> x \<in> set (split_on 0x002C v) \<and> t = trim x))
         \<and> (t \<notin> set (whitelist e) \<longrightarrow>
              validateLicense e (Some t) =
                \<lparr>valid = False, reason = Some (str ''Invalid license token'')\<rparr>)
         \<and> (httpMethod ev = str ''POST'' \<and> request_token ev = Some t \<and> t \<in> set (whitelist e) \<longrightarrow>
              statusCode (fst (aiCommand_handler p e ev)) \<noteq> 401
              \<and> statusCode (fst (youtubeSearch_handler p e ev)) \<noteq> 401)
         \<and> (httpMethod ev = str ''POST'' \<and> request_token ev = Some t \<and> t \<notin> set (whitelist e) \<longrightarrow>
              aiCommand_handler p e ev =
                (error_response p 401 (str ''Unauthorized'') (str ''Invalid license token''), [])
              \<and> youtubeSearch_handler p e ev =
                (error_response p 401 (str ''Unauthorized'') (str ''Invalid license token''), [])
              \<and> statusCode (fst (aiCommand_handler p e ev)) = 401
              \<and> res_body (fst (aiCommand_handler p e ev)) =
                  JSON_stringify p
                    (Obj [(str ''error'', Str (str ''Unauthorized'')),
                          (str ''message'', Str (str ''Invalid license token''))])
              \<and> statusCode (fst (youtubeSearch_handler p e ev)) = 401
              \<and> res_body (fst (youtubeSearch_handler p e ev)) =
                  JSON_stringify p
                    (Obj [(str ''error'', Str (str ''Unauthorized'')),
                          (str ''message'', Str (str ''Invalid license token''))]))"
proof -
  have v: "validateLicense e (Some t) =
             (if t \<in> set (whitelist e) then \<lparr>valid = True, reason = None\<rparr>
              else \<lparr>valid = False, reason = Some (str ''Invalid license token'')\<rparr>)"
    using assms by (simp add: validateLicense_def)
  have mem: "t \<in> set (whitelist e) \<longleftrightarrow>
             (\<exists>v x. LICENSE_TOKENS e = Some v \<and> x \<in> set (split_on 0x002C v) \<and> t = trim x)"
    by (cases "LICENSE_TOKENS e") (auto simp: whitelist_def)
  have pass: "statusCode (fst (aiCommand_handler p e ev)) \<noteq> 401
              \<and> statusCode (fst (youtubeSearch_handler p e ev)) \<noteq> 401"
    if "httpMethod ev = str ''POST''" and "request_token ev = Some t" and "t \<in> set (whitelist e)"
    using that aiCommand_licensed [of ev e p] youtubeSearch_licensed [of ev e p]
    by (auto simp: v)
  have stop: "aiCommand_handler p e ev =
                (error_response p 401 (str ''Unauthorized'') (str ''Invalid license token''), [])
              \<and> youtubeSearch_handler p e ev =
                (error_response p 401 (str ''Unauthorized'') (str ''Invalid license token''), [])
              \<and> statusCode (fst (aiCommand_handler p e ev)) = 401
              \<and> res_body (fst (aiCommand_handler p e ev)) =
                  JSON_stringify p
                    (Obj [(str ''error'', Str (str ''Unauthorized'')),
                          (str ''message'', Str (str ''Invalid license token''))])
              \<and> statusCode (fst (youtubeSearch_handler p e ev)) = 401
              \<and> res_body (fst (youtubeSearch_handler p e ev)) =
                  JSON_stringify p
                    (Obj [(str ''error'', Str (str ''Unauthorized'')),
                          (str ''message'', Str (str ''Invalid license token''))])"
    if "httpMethod ev = str ''POST''" and "request_token ev = Some t" and "t \<notin> set (whitelist e)"
    using that aiCommand_unlicensed [of ev e p] youtubeSearch_unlicensed [of ev e p]
    by (simp add: v license_message_reason Invalid_not_empty error_response_def)
  have "valid (validateLicense e (Some t)) \<longleftrightarrow> t \<in> set (whitelist e)"
    by (simp add: v)
  with mem have iff: "valid (validateLicense e (Some t)) \<longleftrightarrow>
      (\<exists>v x. LICENSE_TOKENS e = Some v \<and> x \<in> set (split_on 0x002C v) \<and> t = trim x)"
    by simp
  have inv: "t \<notin> set (whitelist e) \<longrightarrow>
      validateLicense e (Some t) = \<lparr>valid = False, reason = Some (str ''Invalid license token'')\<rparr>"
    by (simp add: v)
  from iff inv pass stop show ?thesis by blast
qed

theorem whitelist_membership_witness:
  "whitelist (mock_env (Some (str ''alpha, beta'')) (Some (str ''production''))) =
     [str ''alpha'', str ''beta'']
   \<and> statusCode (fst (aiCommand_handler mock_platform
        (mock_env (Some (str ''alpha, beta'')) (Some (str ''production'')))
        (mock_event (str ''POST'') (Some (str ''Bearer beta'')) None))) \<noteq> 401
   \<and> youtubeSearch_handler mock_platform
        (mock_env (Some (str ''alpha, beta'')) (Some (str ''production'')))
        (mock_event (str ''POST'') (Some (str ''Bearer gamma'')) None) =
      (error_response mock_platform 401 (str ''Unauthorized'') (str ''Invalid license token''), [])"
proof -
  let ?e = "mock_env (Some (str ''alpha, beta'')) (Some (str ''production''))"
  let ?ev1 = "mock_event (str ''POST'') (Some (str ''Bearer beta'')) None"
  let ?ev2 = "mock_event (str ''POST'') (Some (str ''Bearer gamma'')) None"
  have w: "whitelist ?e = [str ''alpha'', str ''beta'']"
    by (simp add: whitelist_def mock_env_def trim_def is_space_def str_def)
  have m: "NODE_ENV ?e \<noteq> Some (str ''development'')"
    by (simp add: mock_env_def str_def)
  have meth: "httpMethod ?ev1 = str ''POST''" "httpMethod ?ev2 = str ''POST''"
    by (simp_all add: mock_event_def)
  have tok: "request_token ?ev1 = Some (str ''beta'')" "request_token ?ev2 = Some (str ''gamma'')"
    by (simp_all add: request_token_def mock_event_def js_or_def falsy_def extractToken_def str_def)
  have ne: "str ''beta'' \<noteq> []" "str ''gamma'' \<noteq> []"
    by (simp_all add: str_def)
  have a: "str ''beta'' \<in> set (whitelist ?e)" "str ''gamma'' \<notin> set (whitelist ?e)"
    unfolding w by (simp_all add: str_def)
  have w': "whitelist ?e \<noteq> []" unfolding w by simp
  from whitelist_membership [OF w' m ne(1), of ?ev1 mock_platform] meth(1) tok(1) a(1)
  have r1: "statusCode (fst (aiCommand_handler mock_platform ?e ?ev1)) \<noteq> 401"
    by blast
  from whitelist_membership [OF w' m ne(2), of ?ev2 mock_platform] meth(2) tok(2) a(2)
  have r2: "youtubeSearch_handler mock_platform ?e ?ev2 =
      (error_response mock_platform 401 (str ''Unauthorized'') (str ''Invalid license token''), [])"
    by blast
  from w r1 r2 show ?thesis by blast
qed

text \<open>
  C9. With \<^verbatim>\<open>LICENSE_TOKENS\<close> set to the empty string the parsed whitelist is the one-element
  list of the empty string, so whatever the mode, development included, every present token
  is rejected with reason \<^verbatim>\<open>Invalid license token\<close>. The parsed whitelist is empty only when
  the variable is unset, and a token that is no member is accepted only then (and only in
  development mode).
\<close>

theorem empty_LICENSE_TOKENS_is_no_bypass:
  "(LICENSE_TOKENS e = Some [] \<longrightarrow>
      whitelist e = [[]]
      \<and> (\<forall>t. t \<noteq> [] \<longrightarrow>
            validateLicense e (Some t) =
              \<lparr>valid = False, reason = Some (str ''Invalid license token'')\<rparr>))
   \<and> (length (whitelist e) = 0 \<longleftrightarrow> LICENSE_TOKENS e = None)
   \<and> (valid (validateLicense e (Some t)) \<and> t \<notin> set (whitelist e) \<longrightarrow>
        LICENSE_TOKENS e = None \<and> NODE_ENV e = Some (str ''development''))"
proof -
  have one: "whitelist e = [[]]" if "LICENSE_TOKENS e = Some []"
    using that by (simp add: whitelist_def trim_def)
  have rej: "validateLicense e (Some t) =
               \<lparr>valid = False, reason = Some (str ''Invalid license token'')\<rparr>"
    if "LICENSE_TOKENS e = Some []" and "t \<noteq> []" for t
    using that one by (simp add: validateLicense_def)
  have only: "LICENSE_TOKENS e = None \<and> NODE_ENV e = Some (str ''development'')"
    if "valid (validateLicense e (Some t))" and "t \<notin> set (whitelist e)"
  proof -
    from that have "length (whitelist e) = 0 \<and> NODE_ENV e = Some (str ''development'')"
      by (simp add: validateLicense_def split: if_splits)
    then show ?thesis by (simp add: whitelist_empty_iff)
  qed
  have len: "length (whitelist e) = 0 \<longleftrightarrow> LICENSE_TOKENS e = None"
    by (simp add: whitelist_empty_iff)
  from one rej only len show ?thesis by blast
qed

theorem empty_LICENSE_TOKENS_is_no_bypass_witness:
  "whitelist (mock_env (Some []) (Some (str ''development''))) = [[]]
   \<and> validateLicense (mock_env (Some []) (Some (str ''development''))) (Some (str ''anything'')) =
       \<lparr>valid = False, reason = Some (str ''Invalid license token'')\<rparr>
   \<and> valid (validateLicense (mock_env None (Some (str ''development''))) (Some (str ''anything'')))"
proof -
  have "LICENSE_TOKENS (mock_env (Some []) (Some (str ''development''))) = Some []"
    by (simp add: mock_env_def)
  moreover have "str ''anything'' \<noteq> []"
    by (simp add: str_def)
  moreover have "valid (validateLicense (mock_env None (Some (str ''development''))) (Some (str ''anything'')))"
    by (simp add: validateLicense_def whitelist_def mock_env_def str_def)
  ultimately show ?thesis
    using empty_LICENSE_TOKENS_is_no_bypass
      [of "mock_env (Some []) (Some (str ''development''))" "str ''anything''"]
    by blast
qed

section \<open>The method gate and the CORS headers\<close>

text \<open>
  C6. A request whose method is neither POST nor OPTIONS is answered 405 by both handlers,
  whatever its headers and body and whatever the environment: the method is tested before
  the license guard and before the body is parsed, and no upstream request is made.
\<close>

theorem method_gate_first:
  assumes "httpMethod ev \<noteq> str ''POST''" and "httpMethod ev \<noteq> str ''OPTIONS''"
  shows "aiCommand_handler p e ev =
           (error_response p 405 (str ''Method Not Allowed'') (str ''Only POST requests are allowed''), [])
         \<and> youtubeSearch_handler p e ev =
           (error_response p 405 (str ''Method Not Allowed'') (str ''Only POST requests are allowed''), [])
         \<and> statusCode (fst (aiCommand_handler p e ev)) = 405
         \<and> statusCode (fst (youtubeSearch_handler p e ev)) = 405"
  using assms
  by (simp add: aiCommand_handler_def youtubeSearch_handler_def error_response_def)

theorem method_gate_first_witness:
  "statusCode (fst (aiCommand_handler mock_platform (mock_env (Some (str ''alpha'')) None)
      (mock_event (str ''GET'') None (Some (str ''{not json''))))) = 405
   \<and> statusCode (fst (youtubeSearch_handler mock_platform (mock_env (Some (str ''alpha'')) None)
      (mock_event (str ''DELETE'') (Some (str ''Bearer wrong'')) None))) = 405"
proof -
  have "httpMethod (mock_event (str ''GET'') None (Some (str ''{not json''))) \<noteq> str ''POST''"
    "httpMethod (mock_event (str ''GET'') None (Some (str ''{not json''))) \<noteq> str ''OPTIONS''"
    "httpMethod (mock_event (str ''DELETE'') (Some (str ''Bearer wrong'')) None) \<noteq> str ''POST''"
    "httpMethod (mock_event (str ''DELETE'') (Some (str ''Bearer wrong'')) None) \<noteq> str ''OPTIONS''"
    by (simp_all add: mock_event_def str_def)
  then show ?thesis
    using method_gate_first [of "mock_event (str ''GET'') None (Some (str ''{not json''))"
        mock_platform "mock_env (Some (str ''alpha'')) None"]
      method_gate_first [of "mock_event (str ''DELETE'') (Some (str ''Bearer wrong'')) None"
        mock_platform "mock_env (Some (str ''alpha'')) None"]
    by blast
qed

lemma aiCommand_headers:
  "res_headers (fst (aiCommand_handler p e ev)) = corsHeaders
   \<or> res_headers (fst (aiCommand_handler p e ev)) =
       corsHeaders @ [(str ''Content-Type'', str ''application/json'')]"
  by (simp add: aiCommand_handler_def aiCommand_try_def Let_def
      error_response_def catch_response_def
      split: option.splits sum.splits jsval.splits prod.splits)

lemma youtubeSearch_headers:
  "res_headers (fst (youtubeSearch_handler p e ev)) = corsHeaders
   \<or> res_headers (fst (youtubeSearch_handler p e ev)) =
       corsHeaders @ [(str ''Content-Type'', str ''application/json'')]"
  by (simp add: youtubeSearch_handler_def youtubeSearch_try_def Let_def
      error_response_def catch_response_def
      split: option.splits sum.splits jsval.splits prod.splits)

lemma cors_lookup:
  assumes "hs = corsHeaders \<or> hs = corsHeaders @ [(str ''Content-Type'', str ''application/json'')]"
  shows "map_of hs (str ''Access-Control-Allow-Origin'') = Some (str ''*'')"
    and "map_of hs (str ''Access-Control-Allow-Headers'') = Some (str ''Content-Type, Authorization'')"
    and "map_of hs (str ''Access-Control-Allow-Methods'') = Some (str ''POST, OPTIONS'')"
  using assms by (auto simp: corsHeaders_def str_def)

text \<open>
  C8. Every response of either handler, for every request, environment and platform (the
  preflight answer, each error response and the success response), carries the three CORS
  headers with their fixed values.
\<close>

theorem cors_on_every_response:
  "map_of (res_headers (fst (aiCommand_handler p e ev))) (str ''Access-Control-Allow-Origin'') =
     Some (str ''*'')
   \<and> map_of (res_headers (fst (aiCommand_handler p e ev))) (str ''Access-Control-Allow-Headers'') =
     Some (str ''Content-Type, Authorization'')
   \<and> map_of (res_headers (fst (aiCommand_handler p e ev))) (str ''Access-Control-Allow-Methods'') =
     Some (str ''POST, OPTIONS'')
   \<and> map_of (res_headers (fst (youtubeSearch_handler p e ev))) (str ''Access-Control-Allow-Origin'') =
     Some (str ''*'')
   \<and> map_of (res_headers (fst (youtubeSearch_handler p e ev))) (str ''Access-Control-Allow-Headers'') =
     Some (str ''Content-Type, Authorization'')
   \<and> map_of (res_headers (fst (youtubeSearch_handler p e ev))) (str ''Access-Control-Allow-Methods'') =
     Some (str ''POST, OPTIONS'')"
  using cors_lookup [OF aiCommand_headers [of p e ev]]
    cors_lookup [OF youtubeSearch_headers [of p e ev]]
  by blast

theorem cors_on_every_response_witness:
  "statusCode (fst (youtubeSearch_handler mock_platform (mock_env (Some (str ''alpha'')) None)
      (mock_event (str ''POST'') (Some (str ''Bearer alpha'')) (Some (str ''{\"query\":\"cats\"}''))))) = 200
   \<and> map_of (res_headers (fst (youtubeSearch_handler mock_platform (mock_env (Some (str ''alpha'')) None)
      (mock_event (str ''POST'') (Some (str ''Bearer alpha'')) (Some (str ''{\"query\":\"cats\"}''))))))
      (str ''Access-Control-Allow-Origin'') = Some (str ''*'')
   \<and> statusCode (fst (aiCommand_handler mock_platform (mock_env (Some (str ''alpha'')) None)
      (mock_event (str ''OPTIONS'') None None))) = 200
   \<and> map_of (res_headers (fst (aiCommand_handler mock_platform (mock_env (Some (str ''alpha'')) None)
      (mock_event (str ''OPTIONS'') None None))))
      (str ''Access-Control-Allow-Methods'') = Some (str ''POST, OPTIONS'')"
proof -
  have "statusCode (fst (youtubeSearch_handler mock_platform (mock_env (Some (str ''alpha'')) None)
      (mock_event (str ''POST'') (Some (str ''Bearer alpha'')) (Some (str ''{\"query\":\"cats\"}''))))) = 200"
    by (simp add: youtubeSearch_handler_def youtubeSearch_try_def mock_event_def mock_env_def
        mock_platform_def mock_parse_def request_token_def js_or_def falsy_def or_empty_def
        extractToken_def validateLicense_def whitelist_def parse_body_def trim_def is_space_def
        str_def)
  moreover have "statusCode (fst (aiCommand_handler mock_platform (mock_env (Some (str ''alpha'')) None)
      (mock_event (str ''OPTIONS'') None None))) = 200"
    by (simp add: aiCommand_handler_def mock_event_def)
  ultimately show ?thesis
    using cors_on_every_response [of mock_platform "mock_env (Some (str ''alpha'')) None"
        "mock_event (str ''POST'') (Some (str ''Bearer alpha'')) (Some (str ''{\"query\":\"cats\"}''))"]
      cors_on_every_response [of mock_platform "mock_env (Some (str ''alpha'')) None"
        "mock_event (str ''OPTIONS'') None None"]
    by blast
qed

section \<open>The body validator\<close>

lemma typeof_string_iff: "typeof v = str ''string'' \<longleftrightarrow> (\<exists>s. v = Str s)"
  by (cases v) (simp_all add: str_def)

lemma aiCommand_invalid_prompt:
  assumes "httpMethod ev = str ''POST''"
    and "valid (validateLicense e (request_token ev))"
    and "parse_body p ev = Some b"
    and "get_field b (str ''prompt'') = Inr v"
    and "\<forall>s. v = Str s \<longrightarrow> length (trim s) = 0"
  shows "aiCommand_handler p e ev =
           (error_response p 400 (str ''Bad Request'') (str ''Missing or invalid \"prompt\" field''), [])"
  using assms
  by (cases v) (simp_all add: aiCommand_handler_def aiCommand_try_def POST_not_OPTIONS)

lemma youtubeSearch_invalid_query:
  assumes "httpMethod ev = str ''POST''"
    and "valid (validateLicense e (request_token ev))"
    and "parse_body p ev = Some b"
    and "get_field b (str ''query'') = Inr v"
    and "\<forall>s. v = Str s \<longrightarrow> length (trim s) = 0"
  shows "youtubeSearch_handler p e ev =
           (error_response p 400 (str ''Bad Request'') (str ''Missing or invalid \"query\" field''), [])"
  using assms
  by (cases v) (simp_all add: youtubeSearch_handler_def youtubeSearch_try_def POST_not_OPTIONS)

lemma invalid_field_trim:
  assumes "v = Undefined \<or> typeof v \<noteq> str ''string''
           \<or> (\<exists>s. v = Str s \<and> (s = [] \<or> (\<forall>c \<in> set s. is_space c)))"
  shows "\<forall>s. v = Str s \<longrightarrow> length (trim s) = 0"
  using assms by (auto simp: typeof_string_iff trim_empty_iff [simplified])

text \<open>
  C7. Take a POST request that passes the license guard and whose body parses to \<open>b\<close>. If
  reading the required field of \<open>b\<close> gives \<open>v\<close>, and \<open>v\<close> is \<^verbatim>\<open>undefined\<close> (the field is
  absent), or is not of type string, or is a string that is empty or consists of white space
  only, then the handler answers with status 400 and the body
  \<^verbatim>\<open>JSON.stringify({ error: 'Bad Request', message })\<close>, where \<^verbatim>\<open>message\<close> names the missing
  field (\<^verbatim>\<open>prompt\<close> for aiCommand, \<^verbatim>\<open>query\<close> for youtubeSearch), and makes no upstream
  request.
\<close>

theorem missing_field_is_400:
  assumes "httpMethod ev = str ''POST''"
    and "valid (validateLicense e (request_token ev))"
    and "parse_body p ev = Some b"
    and "v = Undefined \<or> typeof v \<noteq> str ''string''
         \<or> (\<exists>s. v = Str s \<and> (s = [] \<or> (\<forall>c \<in> set s. is_space c)))"
  shows "(get_field b (str ''prompt'') = Inr v \<longrightarrow>
            statusCode (fst (aiCommand_handler p e ev)) = 400
            \<and> res_body (fst (aiCommand_handler p e ev)) =
                JSON_stringify p
                  (Obj [(str ''error'', Str (str ''Bad Request'')),
                        (str ''message'', Str (str ''Missing or invalid \"prompt\" field''))])
            \<and> res_headers (fst (aiCommand_handler p e ev)) = corsHeaders
            \<and> snd (aiCommand_handler p e ev) = [])
         \<and> (get_field b (str ''query'') = Inr v \<longrightarrow>
            statusCode (fst (youtubeSearch_handler p e ev)) = 400
            \<and> res_body (fst (youtubeSearch_handler p e ev)) =
                JSON_stringify p
                  (Obj [(str ''error'', Str (str ''Bad Request'')),
                        (str ''message'', Str (str ''Missing or invalid \"query\" field''))])
            \<and> res_headers (fst (youtubeSearch_handler p e ev)) = corsHeaders
            \<and> snd (youtubeSearch_handler p e ev) = [])"
  using aiCommand_invalid_prompt [OF assms(1-3) _ invalid_field_trim [OF assms(4)]]
    youtubeSearch_invalid_query [OF assms(1-3) _ invalid_field_trim [OF assms(4)]]
  by (simp add: error_response_def)

theorem missing_field_is_400_witness:
  "statusCode (fst (youtubeSearch_handler mock_platform (mock_env (Some (str ''alpha'')) None)
      (mock_event (str ''POST'') (Some (str ''Bearer alpha'')) (Some (str ''{\"query\":\"   \"}''))))) = 400
   \<and> res_body (fst (youtubeSearch_handler mock_platform (mock_env (Some (str ''alpha'')) None)
      (mock_event (str ''POST'') (Some (str ''Bearer alpha'')) (Some (str ''{\"query\":\"   \"}''))))) =
     mock_stringify
       (Obj [(str ''error'', Str (str ''Bad Request'')),
             (str ''message'', Str (str ''Missing or invalid \"query\" field''))])
   \<and> snd (youtubeSearch_handler mock_platform (mock_env (Some (str ''alpha'')) None)
      (mock_event (str ''POST'') (Some (str ''Bearer alpha'')) (Some (str ''{\"query\":\"   \"}'')))) = []
   \<and> statusCode (fst (aiCommand_handler mock_platform (mock_env (Some (str ''alpha'')) None)
      (mock_event (str ''POST'') (Some (str ''Bearer alpha'')) (Some (str ''{\"query\":\"cats\"}''))))) = 400
   \<and> res_body (fst (aiCommand_handler mock_platform (mock_env (Some (str ''alpha'')) None)
      (mock_event (str ''POST'') (Some (str ''Bearer alpha'')) (Some (str ''{\"query\":\"cats\"}''))))) =
     mock_stringify
       (Obj [(str ''error'', Str (str ''Bad Request'')),
             (str ''message'', Str (str ''Missing or invalid \"prompt\" field''))])
   \<and> mock_stringify
       (Obj [(str ''error'', Str (str ''Bad Request'')),
             (str ''message'', Str (str ''Missing or invalid \"prompt\" field''))]) \<noteq>
     mock_stringify
       (Obj [(str ''error'', Str (str ''Bad Request'')),
             (str ''message'', Str (str ''Invalid JSON in request body''))])"
proof -
  let ?e = "mock_env (Some (str ''alpha'')) None"
  let ?ev1 = "mock_event (str ''POST'') (Some (str ''Bearer alpha'')) (Some (str ''{\"query\":\"   \"}''))"
  let ?ev2 = "mock_event (str ''POST'') (Some (str ''Bearer alpha'')) (Some (str ''{\"query\":\"cats\"}''))"
  have meth: "httpMethod ?ev1 = str ''POST''" "httpMethod ?ev2 = str ''POST''"
    by (simp_all add: mock_event_def)
  have lic: "valid (validateLicense ?e (request_token ?ev1))"
    "valid (validateLicense ?e (request_token ?ev2))"
    by (simp_all add: mock_event_def mock_env_def request_token_def js_or_def falsy_def
        extractToken_def validateLicense_def whitelist_def trim_def is_space_def str_def)
  have b1: "parse_body mock_platform ?ev1 = Some (Obj [(str ''query'', Str (str ''   ''))])"
    by (simp add: parse_body_def mock_platform_def mock_parse_def mock_event_def js_or_def
        falsy_def or_empty_def str_def)
  have b2: "parse_body mock_platform ?ev2 = Some (Obj [(str ''query'', Str (str ''cats''))])"
    by (simp add: parse_body_def mock_platform_def mock_parse_def mock_event_def js_or_def
        falsy_def or_empty_def str_def)
  have f1: "get_field (Obj [(str ''query'', Str (str ''   ''))]) (str ''query'') = Inr (Str (str ''   ''))"
    by simp
  have f2: "get_field (Obj [(str ''query'', Str (str ''cats''))]) (str ''prompt'') = Inr Undefined"
    by (simp add: str_def)
  have v1: "Str (str ''   '') = Undefined \<or> typeof (Str (str ''   '')) \<noteq> str ''string''
         \<or> (\<exists>s. Str (str ''   '') = Str s \<and> (s = [] \<or> (\<forall>c \<in> set s. is_space c)))"
    by (simp add: str_def is_space_def)
  have v2: "Undefined = Undefined \<or> typeof Undefined \<noteq> str ''string''
         \<or> (\<exists>s. Undefined = Str s \<and> (s = [] \<or> (\<forall>c \<in> set s. is_space c)))"
    by simp
  have js: "JSON_stringify mock_platform = mock_stringify"
    by (simp add: mock_platform_def)
  have differ: "mock_stringify
       (Obj [(str ''error'', Str (str ''Bad Request'')),
             (str ''message'', Str (str ''Missing or invalid \"prompt\" field''))]) \<noteq>
     mock_stringify
       (Obj [(str ''error'', Str (str ''Bad Request'')),
             (str ''message'', Str (str ''Invalid JSON in request body''))])"
    by (simp add: mock_quote_def str_def)
  from missing_field_is_400 [OF meth(1) lic(1) b1 v1] f1
    missing_field_is_400 [OF meth(2) lic(2) b2 v2] f2 differ
  show ?thesis unfolding js by blast
qed

section \<open>Bodies that parse to null, and absent bodies\<close>

text \<open>
  C10. Take a POST request that passes the license guard. If its body is the text
  \<^verbatim>\<open>null\<close>, which \<^verbatim>\<open>JSON.parse\<close> turns into \<^verbatim>\<open>null\<close>, then reading the required field throws,
  the \<^verbatim>\<open>catch\<close> block at the handler boundary answers, and the response of both handlers has
  status 500, not 400, and the body
  \<^verbatim>\<open>JSON.stringify({ error: 'Internal Server Error', message: 'An error occurred processing your request' })\<close>.
  If the body is absent, \<^verbatim>\<open>{}\<close> is parsed in its place, and the response has status 400 and
  the body of the missing field (\<^verbatim>\<open>Missing or invalid "prompt" field\<close> for aiCommand,
  \<^verbatim>\<open>Missing or invalid "query" field\<close> for youtubeSearch), not that of invalid JSON. No
  upstream request is made in either case.
\<close>

theorem null_body_is_500:
  assumes "httpMethod ev = str ''POST''"
    and "valid (validateLicense e (request_token ev))"
  shows "(body ev = Some (str ''null'') \<and> JSON_parse p (str ''null'') = Some Null \<longrightarrow>
            statusCode (fst (aiCommand_handler p e ev)) = 500
            \<and> res_body (fst (aiCommand_handler p e ev)) =
                JSON_stringify p
                  (Obj [(str ''error'', Str (str ''Internal Server Error'')),
                        (str ''message'', Str (str ''An error occurred processing your request''))])
            \<and> snd (aiCommand_handler p e ev) = []
            \<and> statusCode (fst (youtubeSearch_handler p e ev)) = 500
            \<and> res_body (fst (youtubeSearch_handler p e ev)) =
                JSON_stringify p
                  (Obj [(str ''error'', Str (str ''Internal Server Error'')),
                        (str ''message'', Str (str ''An error occurred processing your request''))])
            \<and> snd (youtubeSearch_handler p e ev) = [])
         \<and> (body ev = None \<and> JSON_parse p (str ''{}'') = Some (Obj []) \<longrightarrow>
            statusCode (fst (aiCommand_handler p e ev)) = 400
            \<and> res_body (fst (aiCommand_handler p e ev)) =
                JSON_stringify p
                  (Obj [(str ''error'', Str (str ''Bad Request'')),
                        (str ''message'', Str (str ''Missing or invalid \"prompt\" field''))])
            \<and> snd (aiCommand_handler p e ev) = []
            \<and> statusCode (fst (youtubeSearch_handler p e ev)) = 400
            \<and> res_body (fst (youtubeSearch_handler p e ev)) =
                JSON_stringify p
                  (Obj [(str ''error'', Str (str ''Bad Request'')),
                        (str ''message'', Str (str ''Missing or invalid \"query\" field''))])
            \<and> snd (youtubeSearch_handler p e ev) = [])"
proof -
  have null_ne: "str ''null'' \<noteq> []"
    by (simp add: str_def)
  have thrown: "aiCommand_handler p e ev = (catch_response p, [])
                \<and> youtubeSearch_handler p e ev = (catch_response p, [])"
    if "body ev = Some (str ''null'')" and "JSON_parse p (str ''null'') = Some Null"
    using that assms null_ne
    by (simp add: aiCommand_handler_def aiCommand_try_def youtubeSearch_handler_def
        youtubeSearch_try_def POST_not_OPTIONS parse_body_def js_or_def falsy_def or_empty_def)
  have absent: "parse_body p ev = Some (Obj [])"
    if "body ev = None" and "JSON_parse p (str ''{}'') = Some (Obj [])"
    using that by (simp add: parse_body_def js_or_def falsy_def or_empty_def)
  have none: "\<forall>s. Undefined = Str s \<longrightarrow> length (trim s) = 0"
    by simp
  have empty: "aiCommand_handler p e ev =
              (error_response p 400 (str ''Bad Request'') (str ''Missing or invalid \"prompt\" field''), [])
            \<and> youtubeSearch_handler p e ev =
              (error_response p 400 (str ''Bad Request'') (str ''Missing or invalid \"query\" field''), [])"
    if "body ev = None" and "JSON_parse p (str ''{}'') = Some (Obj [])"
    using aiCommand_invalid_prompt [OF assms absent [OF that] _ none]
      youtubeSearch_invalid_query [OF assms absent [OF that] _ none]
    by simp
  from thrown empty show ?thesis
    by (simp add: catch_response_def error_response_def)
qed

theorem null_body_is_500_witness:
  "statusCode (fst (aiCommand_handler mock_platform (mock_env (Some (str ''alpha'')) None)
      (mock_event (str ''POST'') (Some (str ''Bearer alpha'')) (Some (str ''null''))))) = 500
   \<and> res_body (fst (aiCommand_handler mock_platform (mock_env (Some (str ''alpha'')) None)
      (mock_event (str ''POST'') (Some (str ''Bearer alpha'')) (Some (str ''null''))))) =
     str ''{\"error\":\"Internal Server Error\",\"message\":\"An error occurred processing your request\"}''
   \<and> statusCode (fst (youtubeSearch_handler mock_platform (mock_env (Some (str ''alpha'')) None)
      (mock_event (str ''POST'') (Some (str ''Bearer alpha'')) (Some (str ''null''))))) = 500
   \<and> statusCode (fst (youtubeSearch_handler mock_platform (mock_env (Some (str ''alpha'')) None)
      (mock_event (str ''POST'') (Some (str ''Bearer alpha'')) None))) = 400
   \<and> res_body (fst (youtubeSearch_handler mock_platform (mock_env (Some (str ''alpha'')) None)
      (mock_event (str ''POST'') (Some (str ''Bearer alpha'')) None))) =
     mock_stringify
       (Obj [(str ''error'', Str (str ''Bad Request'')),
             (str ''message'', Str (str ''Missing or invalid \"query\" field''))])
   \<and> res_body (fst (youtubeSearch_handler mock_platform (mock_env (Some (str ''alpha'')) None)
      (mock_event (str ''POST'') (Some (str ''Bearer alpha'')) None))) \<noteq>
     mock_stringify
       (Obj [(str ''error'', Str (str ''Bad Request'')),
             (str ''message'', Str (str ''Invalid JSON in request body''))])"
proof -
  let ?e = "mock_env (Some (str ''alpha'')) None"
  let ?ev1 = "mock_event (str ''POST'') (Some (str ''Bearer alpha'')) (Some (str ''null''))"
  let ?ev2 = "mock_event (str ''POST'') (Some (str ''Bearer alpha'')) None"
  have meth: "httpMethod ?ev1 = str ''POST''" "httpMethod ?ev2 = str ''POST''"
    by (simp_all add: mock_event_def)
  have lic: "valid (validateLicense ?e (request_token ?ev1))"
    "valid (validateLicense ?e (request_token ?ev2))"
    by (simp_all add: mock_event_def mock_env_def request_token_def js_or_def falsy_def
        extractToken_def validateLicense_def whitelist_def trim_def is_space_def str_def)
  have b: "body ?ev1 = Some (str ''null'')" "body ?ev2 = None"
    by (simp_all add: mock_event_def)
  have parse: "JSON_parse mock_platform (str ''null'') = Some Null"
    "JSON_parse mock_platform (str ''{}'') = Some (Obj [])"
    by (simp_all add: mock_platform_def mock_parse_def str_def)
  have js: "JSON_stringify mock_platform = mock_stringify"
    by (simp add: mock_platform_def)
  have text500: "mock_stringify
       (Obj [(str ''error'', Str (str ''Internal Server Error'')),
             (str ''message'', Str (str ''An error occurred processing your request''))]) =
     str ''{\"error\":\"Internal Server Error\",\"message\":\"An error occurred processing your request\"}''"
    by (simp add: mock_quote_def str_def)
  have differ: "mock_stringify
       (Obj [(str ''error'', Str (str ''Bad Request'')),
             (str ''message'', Str (str ''Missing or invalid \"query\" field''))]) \<noteq>
     mock_stringify
       (Obj [(str ''error'', Str (str ''Bad Request'')),
             (str ''message'', Str (str ''Invalid JSON in request body''))])"
    by (simp add: mock_quote_def str_def)
  from null_body_is_500 [OF meth(1) lic(1), of mock_platform] b(1) parse(1)
  have r1: "statusCode (fst (aiCommand_handler mock_platform ?e ?ev1)) = 500
      \<and> res_body (fst (aiCommand_handler mock_platform ?e ?ev1)) =
          mock_stringify
            (Obj [(str ''error'', Str (str ''Internal Server Error'')),
                  (str ''message'', Str (str ''An error occurred processing your request''))])
      \<and> statusCode (fst (youtubeSearch_handler mock_platform ?e ?ev1)) = 500"
    unfolding js by blast
  from null_body_is_500 [OF meth(2) lic(2), of mock_platform] b(2) parse(2)
  have r2: "statusCode (fst (youtubeSearch_handler mock_platform ?e ?ev2)) = 400
      \<and> res_body (fst (youtubeSearch_handler mock_platform ?e ?ev2)) =
          mock_stringify
            (Obj [(str ''error'', Str (str ''Bad Request'')),
                  (str ''message'', Str (str ''Missing or invalid \"query\" field''))])"
    unfolding js by blast
  from r1 r2 differ show ?thesis
    unfolding text500 by simp
qed

section \<open>The upstream request of aiCommand\<close>

lemma aiCommand_validated:
  assumes "httpMethod ev = str ''POST''"
    and "valid (validateLicense e (request_token ev))"
    and "parse_body p ev = Some b"
    and "get_field b (str ''prompt'') = Inr (Str s)"
    and "length (trim s) \<noteq> 0"
    and "GEMINI_API_KEY e = Some k" and "k \<noteq> []"
    and "get_field b (str ''context'') = Inr ctx"
  shows "aiCommand_handler p e ev =
           (case generateContent p k (str ''gemini-pro'') (fullPrompt p ctx s) of
              None \<Rightarrow> catch_response p
            | Some txt \<Rightarrow>
                \<lparr>statusCode = 200,
                 res_headers = corsHeaders @ [(str ''Content-Type'', str ''application/json'')],
                 res_body = JSON_stringify p (Obj [(str ''result'', Str txt)])\<rparr>,
            [GenerateContent k (str ''gemini-pro'') (fullPrompt p ctx s)])"
proof -
  from assms(5) have "s \<noteq> []"
    by (auto simp: trim_def)
  with assms show ?thesis
    by (simp add: aiCommand_handler_def aiCommand_try_def POST_not_OPTIONS falsy_def or_empty_def
        Let_def split: option.splits)
qed

lemma truthy_iff:
  "truthy v \<longleftrightarrow>
     v \<noteq> Undefined \<and> v \<noteq> Null \<and> v \<noteq> Bool False \<and> v \<noteq> Num (Finite 0) \<and> v \<noteq> Str []"
  by (cases v) auto

text \<open>
  C5. Take a POST request that passes the license guard and whose body has a valid
  \<^verbatim>\<open>prompt\<close> \<open>s\<close>, with the API key set, and let \<open>ctx\<close> be what reading \<^verbatim>\<open>context\<close> of the
  body gives. Exactly one upstream request is made, whatever \<open>ctx\<close> is. Its prompt is \<open>s\<close>
  alone when no context is provided: when \<open>ctx\<close> is \<^verbatim>\<open>undefined\<close> (the body has no
  \<^verbatim>\<open>context\<close>), \<^verbatim>\<open>null\<close>, \<^verbatim>\<open>false\<close>, \<^verbatim>\<open>0\<close> or the empty string. For every other \<open>ctx\<close>, so in
  particular for every context object, the prompt is \<^verbatim>\<open>Context: \<close>, then \<^verbatim>\<open>JSON.stringify\<close>
  of the context, then two line feeds and \<^verbatim>\<open>User Request: \<close>, then \<open>s\<close>. When the upstream
  call answers with a text, the response is 200 with body
  \<^verbatim>\<open>JSON.stringify({ result: text })\<close>.
\<close>

theorem aiCommand_prompt_and_result:
  assumes "httpMethod ev = str ''POST''"
    and "valid (validateLicense e (request_token ev))"
    and "parse_body p ev = Some b"
    and "get_field b (str ''prompt'') = Inr (Str s)"
    and "length (trim s) \<noteq> 0"
    and "GEMINI_API_KEY e = Some k" and "k \<noteq> []"
    and "get_field b (str ''context'') = Inr ctx"
  shows "((\<exists>kvs. ctx = Obj kvs) \<longrightarrow>
            snd (aiCommand_handler p e ev) =
              [GenerateContent k (str ''gemini-pro'')
                 (str ''Context: '' @ JSON_stringify p ctx @ str ''\<newline>\<newline>User Request: '' @ s)])
         \<and> (ctx = Undefined \<longrightarrow>
            snd (aiCommand_handler p e ev) = [GenerateContent k (str ''gemini-pro'') s])
         \<and> (ctx = Null \<or> ctx = Bool False \<or> ctx = Num (Finite 0) \<or> ctx = Str [] \<longrightarrow>
            snd (aiCommand_handler p e ev) = [GenerateContent k (str ''gemini-pro'') s])
         \<and> (ctx \<noteq> Undefined \<and> ctx \<noteq> Null \<and> ctx \<noteq> Bool False \<and> ctx \<noteq> Num (Finite 0)
              \<and> ctx \<noteq> Str [] \<longrightarrow>
            snd (aiCommand_handler p e ev) =
              [GenerateContent k (str ''gemini-pro'')
                 (str ''Context: '' @ JSON_stringify p ctx @ str ''\<newline>\<newline>User Request: '' @ s)])
         \<and> (\<forall>sent txt. snd (aiCommand_handler p e ev) = [GenerateContent k (str ''gemini-pro'') sent]
              \<and> generateContent p k (str ''gemini-pro'') sent = Some txt \<longrightarrow>
            fst (aiCommand_handler p e ev) =
              \<lparr>statusCode = 200,
               res_headers = corsHeaders @ [(str ''Content-Type'', str ''application/json'')],
               res_body = JSON_stringify p (Obj [(str ''result'', Str txt)])\<rparr>)"
proof -
  note h = aiCommand_validated [OF assms]
  have nl: "str ''\<newline>\<newline>User Request: '' = [0x000A, 0x000A] @ str ''User Request: ''"
    by (simp add: str_def)
  have with_ctx: "snd (aiCommand_handler p e ev) =
      [GenerateContent k (str ''gemini-pro'')
         (str ''Context: '' @ JSON_stringify p ctx @ str ''\<newline>\<newline>User Request: '' @ s)]"
    if "truthy ctx"
    using that unfolding h nl by (simp add: fullPrompt_def)
  have alone: "snd (aiCommand_handler p e ev) = [GenerateContent k (str ''gemini-pro'') s]"
    if "\<not> truthy ctx"
    using that unfolding h by (simp add: fullPrompt_def)
  have obj: "truthy ctx" if "\<exists>kvs. ctx = Obj kvs"
    using that by auto
  have undef: "\<not> truthy ctx" if "ctx = Undefined"
    using that by simp
  have falsy_ctx: "\<not> truthy ctx"
    if "ctx = Null \<or> ctx = Bool False \<or> ctx = Num (Finite 0) \<or> ctx = Str []"
    using that by auto
  have other: "truthy ctx"
    if "ctx \<noteq> Undefined \<and> ctx \<noteq> Null \<and> ctx \<noteq> Bool False \<and> ctx \<noteq> Num (Finite 0) \<and> ctx \<noteq> Str []"
    using that by (simp add: truthy_iff)
  have res: "fst (aiCommand_handler p e ev) =
      \<lparr>statusCode = 200,
       res_headers = corsHeaders @ [(str ''Content-Type'', str ''application/json'')],
       res_body = JSON_stringify p (Obj [(str ''result'', Str answer)])\<rparr>"
    if "snd (aiCommand_handler p e ev) = [GenerateContent k (str ''gemini-pro'') sent]"
      and "generateContent p k (str ''gemini-pro'') sent = Some answer" for sent answer
    using that unfolding h by simp
  from with_ctx [OF obj] alone [OF undef] alone [OF falsy_ctx] with_ctx [OF other] res
  show ?thesis by blast
qed

theorem aiCommand_prompt_and_result_witness:
  "aiCommand_handler mock_platform (mock_env (Some (str ''alpha'')) None)
      (mock_event (str ''POST'') (Some (str ''Bearer alpha''))
         (Some (str ''{\"prompt\":\"cut\",\"context\":{}}''))) =
     (\<lparr>statusCode = 200,
       res_headers = corsHeaders @ [(str ''Content-Type'', str ''application/json'')],
       res_body = str ''{\"result\":\"done\"}''\<rparr>,
      [GenerateContent (str ''g-key'') (str ''gemini-pro'')
         (str ''Context: {}\<newline>\<newline>User Request: cut'')])
   \<and> snd (aiCommand_handler mock_platform (mock_env (Some (str ''alpha'')) None)
      (mock_event (str ''POST'') (Some (str ''Bearer alpha''))
         (Some (str ''{\"prompt\":\"cut\",\"context\":null}'')))) =
     [GenerateContent (str ''g-key'') (str ''gemini-pro'') (str ''cut'')]"
proof -
  let ?e = "mock_env (Some (str ''alpha'')) None"
  let ?ev = "mock_event (str ''POST'') (Some (str ''Bearer alpha''))
         (Some (str ''{\"prompt\":\"cut\",\"context\":{}}''))"
  let ?evn = "mock_event (str ''POST'') (Some (str ''Bearer alpha''))
         (Some (str ''{\"prompt\":\"cut\",\"context\":null}''))"
  let ?b = "Obj [(str ''prompt'', Str (str ''cut'')), (str ''context'', Obj [])]"
  let ?bn = "Obj [(str ''prompt'', Str (str ''cut'')), (str ''context'', Null)]"
  have meth: "httpMethod ?ev = str ''POST''" "httpMethod ?evn = str ''POST''"
    by (simp_all add: mock_event_def)
  have lic: "valid (validateLicense ?e (request_token ?ev))"
    "valid (validateLicense ?e (request_token ?evn))"
    by (simp_all add: mock_event_def mock_env_def request_token_def js_or_def falsy_def
        extractToken_def validateLicense_def whitelist_def trim_def is_space_def str_def)
  have b: "parse_body mock_platform ?ev = Some ?b"
    by (simp add: parse_body_def mock_platform_def mock_parse_def mock_event_def js_or_def
        falsy_def or_empty_def str_def)
  have b0: "parse_body mock_platform ?evn = Some ?bn"
    by (simp add: parse_body_def mock_platform_def mock_parse_def mock_event_def js_or_def
        falsy_def or_empty_def str_def)
  have f: "get_field ?b (str ''prompt'') = Inr (Str (str ''cut''))"
    "get_field ?b (str ''context'') = Inr (Obj [])"
    "get_field ?bn (str ''prompt'') = Inr (Str (str ''cut''))"
    "get_field ?bn (str ''context'') = Inr Null"
    by (simp_all add: str_def)
  have t: "length (trim (str ''cut'')) \<noteq> 0"
    by (simp add: trim_def is_space_def str_def)
  have k: "GEMINI_API_KEY ?e = Some (str ''g-key'')" "str ''g-key'' \<noteq> []"
    by (simp_all add: mock_env_def str_def)
  note th = aiCommand_prompt_and_result [OF meth(1) lic(1) b f(1) t k f(2)]
  note th0 = aiCommand_prompt_and_result [OF meth(2) lic(2) b0 f(3) t k f(4)]
  have sent: "str ''Context: '' @ JSON_stringify mock_platform (Obj [])
      @ str ''\<newline>\<newline>User Request: '' @ str ''cut'' = str ''Context: {}\<newline>\<newline>User Request: cut''"
    by (simp add: mock_platform_def str_def)
  have out: "JSON_stringify mock_platform (Obj [(str ''result'', Str (str ''done''))]) =
      str ''{\"result\":\"done\"}''"
    by (simp add: mock_platform_def mock_quote_def str_def)
  from th have c: "snd (aiCommand_handler mock_platform ?e ?ev) =
     [GenerateContent (str ''g-key'') (str ''gemini-pro'') (str ''Context: {}\<newline>\<newline>User Request: cut'')]"
    unfolding sent [symmetric] by blast
  have "generateContent mock_platform (str ''g-key'') (str ''gemini-pro'')
      (str ''Context: {}\<newline>\<newline>User Request: cut'') = Some (str ''done'')"
    by (simp add: mock_platform_def)
  with th c have "fst (aiCommand_handler mock_platform ?e ?ev) =
     \<lparr>statusCode = 200,
       res_headers = corsHeaders @ [(str ''Content-Type'', str ''application/json'')],
       res_body = JSON_stringify mock_platform (Obj [(str ''result'', Str (str ''done''))])\<rparr>"
    by blast
  with c have first: "aiCommand_handler mock_platform ?e ?ev =
     (\<lparr>statusCode = 200,
       res_headers = corsHeaders @ [(str ''Content-Type'', str ''application/json'')],
       res_body = str ''{\"result\":\"done\"}''\<rparr>,
      [GenerateContent (str ''g-key'') (str ''gemini-pro'')
         (str ''Context: {}\<newline>\<newline>User Request: cut'')])"
    unfolding out by (simp add: prod_eq_iff)
  from th0 have second: "snd (aiCommand_handler mock_platform ?e ?evn) =
     [GenerateContent (str ''g-key'') (str ''gemini-pro'') (str ''cut'')]"
    by blast
  from first second show ?thesis by blast
qed

section \<open>The results of youtubeSearch\<close>

lemma youtubeSearch_validated:
  assumes "httpMethod ev = str ''POST''"
    and "valid (validateLicense e (request_token ev))"
    and "parse_body p ev = Some b"
    and "get_field b (str ''query'') = Inr (Str q)"
    and "length (trim q) \<noteq> 0"
    and "YOUTUBE_API_KEY e = Some k" and "k \<noteq> []"
    and "fetch p (searchUrl q k) = Some resp" and "ok resp" and "json_of resp = Some data"
  shows "youtubeSearch_handler p e ev =
           (\<lparr>statusCode = 200,
             res_headers = corsHeaders @ [(str ''Content-Type'', str ''application/json'')],
             res_body = JSON_stringify p (Obj [(str ''results'', Arr (results_of data))])\<rparr>,
            [Fetch (searchUrl q k)])"
proof -
  from assms(5) have "q \<noteq> []"
    by (auto simp: trim_def)
  with assms show ?thesis
    by (simp add: youtubeSearch_handler_def youtubeSearch_try_def POST_not_OPTIONS falsy_def
        or_empty_def Let_def)
qed

text \<open>
  C4. Take a POST request that passes the license guard with a valid \<^verbatim>\<open>query\<close>, the API key
  set, and an upstream answer that is ok and whose payload has the items \<open>its\<close> (none when the
  payload has no \<^verbatim>\<open>items\<close>). The response
  is 200 and its body is \<^verbatim>\<open>JSON.stringify({ results })\<close>, where \<open>results\<close> has exactly one
  entry for each item, in the order of the items. In the entry of an item, \<^verbatim>\<open>url\<close> is
  \<^verbatim>\<open>https://www.youtube.com/watch?v=\<close> followed by the item's \<^verbatim>\<open>videoId\<close>, \<^verbatim>\<open>title\<close> and
  \<^verbatim>\<open>channel\<close> are the snippet's \<^verbatim>\<open>title\<close> and \<^verbatim>\<open>channelTitle\<close>, each the empty string when
  absent (as is the \<^verbatim>\<open>videoId\<close>), and \<^verbatim>\<open>thumbnails.default\<close>, \<^verbatim>\<open>thumbnails.medium\<close> and
  \<^verbatim>\<open>thumbnails.high\<close> are the URLs of the snippet's thumbnails of the same name, each
  \<^verbatim>\<open>undefined\<close> when absent.
\<close>

theorem youtubeSearch_one_result_per_item:
  assumes "httpMethod ev = str ''POST''"
    and "valid (validateLicense e (request_token ev))"
    and "parse_body p ev = Some b"
    and "get_field b (str ''query'') = Inr (Str q)"
    and "length (trim q) \<noteq> 0"
    and "YOUTUBE_API_KEY e = Some k" and "k \<noteq> []"
    and "fetch p (searchUrl q k) = Some resp" and "ok resp" and "json_of resp = Some data"
    and "(case items data of None \<Rightarrow> [] | Some xs \<Rightarrow> xs) = its"
  shows "\<exists>rs. fst (youtubeSearch_handler p e ev) =
              \<lparr>statusCode = 200,
               res_headers = corsHeaders @ [(str ''Content-Type'', str ''application/json'')],
               res_body = JSON_stringify p (Obj [(str ''results'', Arr rs)])\<rparr>
            \<and> length rs = length its
            \<and> (\<forall>i < length its.
                  rs ! i =
                    Obj [(str ''title'',
                            Str (case Option.bind (item_snippet (its ! i)) snippet_title of
                                   None \<Rightarrow> [] | Some s \<Rightarrow> s)),
                         (str ''url'',
                            Str (str ''https://www.youtube.com/watch?v='' @
                                 (case Option.bind (item_id (its ! i)) videoId of
                                    None \<Rightarrow> [] | Some s \<Rightarrow> s))),
                         (str ''channel'',
                            Str (case Option.bind (item_snippet (its ! i)) channelTitle of
                                   None \<Rightarrow> [] | Some s \<Rightarrow> s)),
                         (str ''thumbnails'',
                            Obj [(str ''default'',
                                    (case Option.bind (Option.bind (Option.bind
                                            (item_snippet (its ! i)) snippet_thumbs) default_thumb) thumb_url of
                                       None \<Rightarrow> Undefined | Some u \<Rightarrow> Str u)),
                                 (str ''medium'',
                                    (case Option.bind (Option.bind (Option.bind
                                            (item_snippet (its ! i)) snippet_thumbs) medium_thumb) thumb_url of
                                       None \<Rightarrow> Undefined | Some u \<Rightarrow> Str u)),
                                 (str ''high'',
                                    (case Option.bind (Option.bind (Option.bind
                                            (item_snippet (its ! i)) snippet_thumbs) high_thumb) thumb_url of
                                       None \<Rightarrow> Undefined | Some u \<Rightarrow> Str u))])])"
proof -
  have r: "results_of data = map result_of its"
    using assms(11) by (simp add: results_of_def)
  have "fst (youtubeSearch_handler p e ev) =
          \<lparr>statusCode = 200,
           res_headers = corsHeaders @ [(str ''Content-Type'', str ''application/json'')],
           res_body = JSON_stringify p (Obj [(str ''results'', Arr (map result_of its))])\<rparr>"
    using youtubeSearch_validated [OF assms(1-10)] r by simp
  moreover have "length (map result_of its) = length its"
    by simp
  moreover have "\<forall>i < length its. map result_of its ! i =
                    Obj [(str ''title'',
                            Str (case Option.bind (item_snippet (its ! i)) snippet_title of
                                   None \<Rightarrow> [] | Some s \<Rightarrow> s)),
                         (str ''url'',
                            Str (str ''https://www.youtube.com/watch?v='' @
                                 (case Option.bind (item_id (its ! i)) videoId of
                                    None \<Rightarrow> [] | Some s \<Rightarrow> s))),
                         (str ''channel'',
                            Str (case Option.bind (item_snippet (its ! i)) channelTitle of
                                   None \<Rightarrow> [] | Some s \<Rightarrow> s)),
                         (str ''thumbnails'',
                            Obj [(str ''default'',
                                    (case Option.bind (Option.bind (Option.bind
                                            (item_snippet (its ! i)) snippet_thumbs) default_thumb) thumb_url of
                                       None \<Rightarrow> Undefined | Some u \<Rightarrow> Str u)),
                                 (str ''medium'',
                                    (case Option.bind (Option.bind (Option.bind
                                            (item_snippet (its ! i)) snippet_thumbs) medium_thumb) thumb_url of
                                       None \<Rightarrow> Undefined | Some u \<Rightarrow> Str u)),
                                 (str ''high'',
                                    (case Option.bind (Option.bind (Option.bind
                                            (item_snippet (its ! i)) snippet_thumbs) high_thumb) thumb_url of
                                       None \<Rightarrow> Undefined | Some u \<Rightarrow> Str u))])]"
    by (simp add: result_of_def thumb_value_def or_empty_def)
  ultimately show ?thesis by blast
qed

theorem youtubeSearch_one_result_per_item_witness:
  "fst (youtubeSearch_handler mock_platform (mock_env (Some (str ''alpha'')) None)
      (mock_event (str ''POST'') (Some (str ''Bearer alpha'')) (Some (str ''{\"query\":\"cats\"}'')))) =
     \<lparr>statusCode = 200,
      res_headers = corsHeaders @ [(str ''Content-Type'', str ''application/json'')],
      res_body = JSON_stringify mock_platform (Obj [(str ''results'', Arr
        [Obj [(str ''title'', Str (str ''Cats'')),
              (str ''url'', Str (str ''https://www.youtube.com/watch?v=abc'')),
              (str ''channel'', Str (str ''Felines'')),
              (str ''thumbnails'',
                 Obj [(str ''default'', Str (str ''d.jpg'')),
                      (str ''medium'', Str (str ''m.jpg'')),
                      (str ''high'', Str (str ''h.jpg''))])],
         Obj [(str ''title'', Str []),
              (str ''url'', Str (str ''https://www.youtube.com/watch?v='')),
              (str ''channel'', Str (str ''Dogs'')),
              (str ''thumbnails'',
                 Obj [(str ''default'', Undefined),
                      (str ''medium'', Str (str ''m2.jpg'')),
                      (str ''high'', Undefined)])]])])\<rparr>"
proof -
  let ?e = "mock_env (Some (str ''alpha'')) None"
  let ?ev = "mock_event (str ''POST'') (Some (str ''Bearer alpha'')) (Some (str ''{\"query\":\"cats\"}''))"
  let ?b = "Obj [(str ''query'', Str (str ''cats''))]"
  let ?resp = "\<lparr>ok = True, text_of = Some [], json_of = Some \<lparr>items = Some mock_items\<rparr>\<rparr>"
  have meth: "httpMethod ?ev = str ''POST''"
    by (simp add: mock_event_def)
  have lic: "valid (validateLicense ?e (request_token ?ev))"
    by (simp add: mock_event_def mock_env_def request_token_def js_or_def falsy_def
        extractToken_def validateLicense_def whitelist_def trim_def is_space_def str_def)
  have b: "parse_body mock_platform ?ev = Some ?b"
    by (simp add: parse_body_def mock_platform_def mock_parse_def mock_event_def js_or_def
        falsy_def or_empty_def str_def)
  have f: "get_field ?b (str ''query'') = Inr (Str (str ''cats''))"
    by simp
  have t: "length (trim (str ''cats'')) \<noteq> 0"
    by (simp add: trim_def is_space_def str_def)
  have k: "YOUTUBE_API_KEY ?e = Some (str ''y-key'')" "str ''y-key'' \<noteq> []"
    by (simp_all add: mock_env_def str_def)
  have u: "fetch mock_platform (searchUrl (str ''cats'') (str ''y-key'')) = Some ?resp"
    by (simp add: mock_platform_def)
  have d: "ok ?resp" "json_of ?resp = Some \<lparr>items = Some mock_items\<rparr>"
    "(case items \<lparr>items = Some mock_items\<rparr> of None \<Rightarrow> [] | Some xs \<Rightarrow> xs) = mock_items"
    by simp_all
  from youtubeSearch_one_result_per_item [OF meth lic b f t k u d]
  obtain rs where body: "fst (youtubeSearch_handler mock_platform ?e ?ev) =
              \<lparr>statusCode = 200,
               res_headers = corsHeaders @ [(str ''Content-Type'', str ''application/json'')],
               res_body = JSON_stringify mock_platform (Obj [(str ''results'', Arr rs)])\<rparr>"
    and len: "length rs = length mock_items"
    and each: "\<forall>i < length mock_items.
                  rs ! i =
                    Obj [(str ''title'',
                            Str (case Option.bind (item_snippet (mock_items ! i)) snippet_title of
                                   None \<Rightarrow> [] | Some s \<Rightarrow> s)),
                         (str ''url'',
                            Str (str ''https://www.youtube.com/watch?v='' @
                                 (case Option.bind (item_id (mock_items ! i)) videoId of
                                    None \<Rightarrow> [] | Some s \<Rightarrow> s))),
                         (str ''channel'',
                            Str (case Option.bind (item_snippet (mock_items ! i)) channelTitle of
                                   None \<Rightarrow> [] | Some s \<Rightarrow> s)),
                         (str ''thumbnails'',
                            Obj [(str ''default'',
                                    (case Option.bind (Option.bind (Option.bind
                                            (item_snippet (mock_items ! i)) snippet_thumbs) default_thumb) thumb_url of
                                       None \<Rightarrow> Undefined | Some u \<Rightarrow> Str u)),
                                 (str ''medium'',
                                    (case Option.bind (Option.bind (Option.bind
                                            (item_snippet (mock_items ! i)) snippet_thumbs) medium_thumb) thumb_url of
                                       None \<Rightarrow> Undefined | Some u \<Rightarrow> Str u)),
                                 (str ''high'',
                                    (case Option.bind (Option.bind (Option.bind
                                            (item_snippet (mock_items ! i)) snippet_thumbs) high_thumb) thumb_url of
                                       None \<Rightarrow> Undefined | Some u \<Rightarrow> Str u))])]"
    by blast
  have two: "length mock_items = 2"
    by (simp add: mock_items_def)
  from len two obtain r0 r1 where rs: "rs = [r0, r1]"
    by (cases rs; cases "tl rs"; cases "tl (tl rs)") auto
  from each two have e0: "rs ! 0 = Obj [(str ''title'', Str (str ''Cats'')),
              (str ''url'', Str (str ''https://www.youtube.com/watch?v=abc'')),
              (str ''channel'', Str (str ''Felines'')),
              (str ''thumbnails'',
                 Obj [(str ''default'', Str (str ''d.jpg'')),
                      (str ''medium'', Str (str ''m.jpg'')),
                      (str ''high'', Str (str ''h.jpg''))])]"
    by (simp add: mock_items_def str_def)
  from each two have e1: "rs ! 1 = Obj [(str ''title'', Str []),
              (str ''url'', Str (str ''https://www.youtube.com/watch?v='')),
              (str ''channel'', Str (str ''Dogs'')),
              (str ''thumbnails'',
                 Obj [(str ''default'', Undefined),
                      (str ''medium'', Str (str ''m2.jpg'')),
                      (str ''high'', Undefined)])]"
    by (simp add: mock_items_def str_def)
  from e0 e1 rs body show ?thesis
    by simp
qed

end
